theory Spec2Isabelle
  imports Complex_Main "HOL-Library.List_Lexorder" "HOL-Library.Char_ord"
    "HOL-Library.Product_Lexorder" "HOL-Library.Multiset"
begin

section \<open>Python values used by the collector\<close>

text \<open>
  A Python \<open>str\<close> is modelled as a \<open>string\<close>: a list of code points below 256.
  A Python \<open>int\<close> is an \<open>int\<close>.  A Python \<open>float\<close> is modelled by the exact
  rational it denotes (or one of the two non-finite values); rounding to binary64 is
  not part of the model.  Exceptions are values of \<open>exn\<close>; every function that can
  raise returns \<open>exn + 'a\<close> with \<open>Inl\<close> for the raised exception.
  \<open>KeyboardInterrupt\<close> stands for the exceptions that derive from \<open>BaseException\<close>
  only; every other constructor is a subclass of \<open>Exception\<close>.
\<close>

datatype exn =
    ValueError
  | OverflowError
  | CalledProcessError
  | FileNotFoundError
  | SqliteError
  | RuntimeError string
  | KeyboardInterrupt

fun is_Exception :: "exn \<Rightarrow> bool" where
  "is_Exception KeyboardInterrupt = False"
| "is_Exception _ = True"

datatype pyfloat = Finite rat | Infinite | NaN

subsection \<open>\<open>str\<close> methods\<close>

definition py_isspace :: "char \<Rightarrow> bool" where
  "py_isspace c = (of_char c \<in> {9, 10, 11, 12, 13, 28, 29, 30, 31, 32, 133, 160 :: nat})"

definition py_lower_char :: "char \<Rightarrow> char" where
  "py_lower_char c =
     (let n = of_char c :: nat
      in if (65 \<le> n \<and> n \<le> 90) \<or> (192 \<le> n \<and> n \<le> 222 \<and> n \<noteq> 215)
         then char_of (n + 32) else c)"

definition py_lower :: "string \<Rightarrow> string" where
  "py_lower s = map py_lower_char s"

text \<open>\<open>s.split()\<close>: the maximal runs of non-whitespace characters, in order.\<close>

fun split_words :: "string \<Rightarrow> string \<Rightarrow> string list" where
  "split_words cur [] = (if cur = [] then [] else [cur])"
| "split_words cur (c # cs) =
     (if py_isspace c
      then (if cur = [] then split_words [] cs else cur # split_words [] cs)
      else split_words (cur @ [c]) cs)"

definition py_split :: "string \<Rightarrow> string list" where
  "py_split s = split_words [] s"

text \<open>\<open>s.split(sep)\<close> for a separator of one character: never empty.\<close>

fun split_sep :: "char \<Rightarrow> string \<Rightarrow> string \<Rightarrow> string list" where
  "split_sep sep cur [] = [cur]"
| "split_sep sep cur (c # cs) =
     (if c = sep then cur # split_sep sep [] cs else split_sep sep (cur @ [c]) cs)"

definition py_split_on :: "char \<Rightarrow> string \<Rightarrow> string list" where
  "py_split_on sep s = split_sep sep [] s"

definition py_lstrip :: "string \<Rightarrow> string" where
  "py_lstrip s = dropWhile py_isspace s"

definition py_rstrip :: "string \<Rightarrow> string" where
  "py_rstrip s = rev (dropWhile py_isspace (rev s))"

definition py_strip :: "string \<Rightarrow> string" where
  "py_strip s = py_rstrip (py_lstrip s)"

text \<open>\<open>s.rstrip(chars)\<close> for a one-character argument.\<close>

definition py_rstrip_char :: "char \<Rightarrow> string \<Rightarrow> string" where
  "py_rstrip_char c s = rev (dropWhile (\<lambda>d. d = c) (rev s))"

text \<open>\<open>s.replace(a, b)\<close> for one-character \<open>a\<close> and \<open>b\<close>.\<close>

definition py_replace_char :: "char \<Rightarrow> char \<Rightarrow> string \<Rightarrow> string" where
  "py_replace_char a b s = map (\<lambda>c. if c = a then b else c) s"

text \<open>\<open>sub in s\<close>.\<close>

fun py_in :: "string \<Rightarrow> string \<Rightarrow> bool" where
  "py_in sub [] = (sub = [])"
| "py_in sub (c # cs) = (take (length sub) (c # cs) = sub \<or> py_in sub cs)"

text \<open>\<open>s.endswith((a, b))\<close> for one-character \<open>a\<close> and \<open>b\<close>.\<close>

definition py_endswith2 :: "char \<Rightarrow> char \<Rightarrow> string \<Rightarrow> bool" where
  "py_endswith2 a b s = (s \<noteq> [] \<and> (last s = a \<or> last s = b))"

subsection \<open>\<open>int(str)\<close> and \<open>float(str)\<close>\<close>

definition is_digit :: "char \<Rightarrow> bool" where
  "is_digit c = (48 \<le> (of_char c :: nat) \<and> (of_char c :: nat) \<le> 57)"

definition digit_val :: "char \<Rightarrow> int" where
  "digit_val c = of_char c - 48"

text \<open>The value of a digit string, most significant digit first.\<close>

definition int_of_digits :: "string \<Rightarrow> int" where
  "int_of_digits ds = foldl (\<lambda>acc d. 10 * acc + digit_val d) 0 ds"

text \<open>
  \<open>digitpart ::= digit (["_"] digit)*\<close>.  \<open>more_digits\<close> reads the part after the first
  digit and returns the digits read and the unread rest.
\<close>

fun more_digits :: "string \<Rightarrow> string \<times> string" where
  "more_digits (c # d # cs) =
     (if is_digit c then (let (ds, r) = more_digits (d # cs) in (c # ds, r))
      else if c = CHR ''_'' \<and> is_digit d then (let (ds, r) = more_digits cs in (d # ds, r))
      else ([], c # d # cs))"
| "more_digits [c] = (if is_digit c then ([c], []) else ([], [c]))"
| "more_digits [] = ([], [])"

definition digitpart :: "string \<Rightarrow> (string \<times> string) option" where
  "digitpart s =
     (case s of
        [] \<Rightarrow> None
      | c # cs \<Rightarrow> if is_digit c then (let (ds, r) = more_digits cs in Some (c # ds, r))
                 else None)"

text \<open>An optional sign: the factor and the rest.\<close>

definition opt_sign :: "string \<Rightarrow> int \<times> string" where
  "opt_sign s =
     (case s of
        c # cs \<Rightarrow> if c = CHR ''-'' then (- 1, cs) else if c = CHR ''+'' then (1, cs) else (1, s)
      | [] \<Rightarrow> (1, s))"

text \<open>\<open>int(s)\<close> in base 10: surrounding whitespace, a sign, one digitpart.\<close>

definition py_int :: "string \<Rightarrow> exn + int" where
  "py_int s =
     (let (sg, r) = opt_sign (py_strip s)
      in case digitpart r of
           Some (ds, []) \<Rightarrow> Inr (sg * int_of_digits ds)
         | _ \<Rightarrow> Inl ValueError)"

text \<open>
  \<open>float(s)\<close>: surrounding whitespace, a sign, then \<open>inf\<close>, \<open>infinity\<close> or \<open>nan\<close> in any
  case, or \<open>number [exponent]\<close> with
  \<open>number ::= [digitpart] "." digitpart | digitpart ["."]\<close> and
  \<open>exponent ::= ("e" | "E") ["+" | "-"] digitpart\<close>.
  \<open>float_number\<close> returns the integer digits, the fraction digits and the rest.
\<close>

definition float_number :: "string \<Rightarrow> (string \<times> string \<times> string) option" where
  "float_number s =
     (case digitpart s of
        Some (ip, r) \<Rightarrow>
          (case r of
             c # r' \<Rightarrow>
               if c = CHR ''.''
               then (case digitpart r' of
                       Some (fp, r'') \<Rightarrow> Some (ip, fp, r'')
                     | None \<Rightarrow> Some (ip, [], r'))
               else Some (ip, [], r)
           | [] \<Rightarrow> Some (ip, [], []))
      | None \<Rightarrow>
          (case s of
             c # r' \<Rightarrow>
               if c = CHR ''.''
               then (case digitpart r' of
                       Some (fp, r'') \<Rightarrow> Some ([], fp, r'')
                     | None \<Rightarrow> None)
               else None
           | [] \<Rightarrow> None))"

definition float_exponent :: "string \<Rightarrow> int option" where
  "float_exponent s =
     (case s of
        [] \<Rightarrow> Some 0
      | c # cs \<Rightarrow>
          if c = CHR ''e'' \<or> c = CHR ''E''
          then (let (sg, r) = opt_sign cs
                in case digitpart r of
                     Some (ds, []) \<Rightarrow> Some (sg * int_of_digits ds)
                   | _ \<Rightarrow> None)
          else None)"

definition pow10 :: "int \<Rightarrow> rat" where
  "pow10 k = (if 0 \<le> k then 10 ^ nat k else 1 / 10 ^ nat (- k))"

definition py_float :: "string \<Rightarrow> exn + pyfloat" where
  "py_float s =
     (let (sg, r) = opt_sign (py_strip s); low = py_lower r
      in if low = ''inf'' \<or> low = ''infinity'' then Inr Infinite
         else if low = ''nan'' then Inr NaN
         else case float_number r of
                None \<Rightarrow> Inl ValueError
              | Some (ip, fp, r') \<Rightarrow>
                  (case float_exponent r' of
                     None \<Rightarrow> Inl ValueError
                   | Some e \<Rightarrow>
                       Inr (Finite (of_int sg * of_int (int_of_digits (ip @ fp))
                                    * pow10 (e - int (length fp))))))"

text \<open>\<open>x * k\<close> for a float \<open>x\<close> and an int \<open>k\<close>, as used with \<open>k = 1024\<close>.\<close>

fun py_float_mul_int :: "pyfloat \<Rightarrow> int \<Rightarrow> pyfloat" where
  "py_float_mul_int (Finite x) k = Finite (x * of_int k)"
| "py_float_mul_int Infinite k = (if k = 0 then NaN else Infinite)"
| "py_float_mul_int NaN k = NaN"

text \<open>\<open>int(x)\<close> for a float \<open>x\<close>: truncation toward zero.\<close>

definition trunc :: "rat \<Rightarrow> int" where
  "trunc x = (if 0 \<le> x then \<lfloor>x\<rfloor> else \<lceil>x\<rceil>)"

fun py_int_of_float :: "pyfloat \<Rightarrow> exn + int" where
  "py_int_of_float (Finite x) = Inr (trunc x)"
| "py_int_of_float Infinite = Inl OverflowError"
| "py_int_of_float NaN = Inl ValueError"

text \<open>Sequencing of calls that may raise.\<close>

definition bind :: "exn + 'a \<Rightarrow> ('a \<Rightarrow> exn + 'b) \<Rightarrow> exn + 'b" where
  "bind m f = (case m of Inl e \<Rightarrow> Inl e | Inr x \<Rightarrow> f x)"

section \<open>collector.py\<close>

text \<open>
  \<open>run_command\<close> takes the outcome of \<open>subprocess.run(..., check=True)\<close>: the exception
  raised, or the captured standard output.
\<close>

definition run_command :: "exn + string \<Rightarrow> exn + string" where
  "run_command outcome = bind outcome (\<lambda>stdout. Inr (py_strip stdout))"

text \<open>
  The inner loop of \<open>get_page_size\<close> over \<open>enumerate(parts)\<close>: \<open>None\<close> when the loop
  ends without returning.
\<close>

fun page_size_in_parts :: "string list \<Rightarrow> (exn + int) option" where
  "page_size_in_parts (part # nxt # rest) =
     (if part = ''of'' then Some (py_int nxt) else page_size_in_parts (nxt # rest))"
| "page_size_in_parts _ = None"

fun page_size_in_lines :: "string list \<Rightarrow> exn + int" where
  "page_size_in_lines [] = Inr 4096"
| "page_size_in_lines (line # rest) =
     (if py_in ''page size of'' line
      then (case page_size_in_parts (py_split line) of
              Some r \<Rightarrow> r
            | None \<Rightarrow> page_size_in_lines rest)
      else page_size_in_lines rest)"

definition get_page_size :: "exn + string \<Rightarrow> exn + int" where
  "get_page_size vm_stat =
     bind (run_command vm_stat)
       (\<lambda>vm_stat_output. page_size_in_lines (py_split_on (CHR 0x0A) vm_stat_output))"

text \<open>
  \<open>parse_vm_stat\<close>: the dictionary \<open>pages\<close> is a map; a line that does not give
  exactly a label and an integer leaves it as it is.
\<close>

definition parse_vm_stat_line :: "(string \<rightharpoonup> int) \<Rightarrow> string \<Rightarrow> (string \<rightharpoonup> int)" where
  "parse_vm_stat_line pages line =
     (if py_in '':'' line
      then (let parts = py_split_on (CHR '':'') line
            in if length parts = 2
               then (let key = py_strip (parts ! 0);
                         value_str = py_rstrip_char (CHR ''.'') (py_strip (parts ! 1))
                     in case py_int value_str of
                          Inr v \<Rightarrow> pages(key \<mapsto> v)
                        | Inl e \<Rightarrow> pages)
               else pages)
      else pages)"

definition parse_vm_stat :: "exn + string \<Rightarrow> exn + (string \<rightharpoonup> int)" where
  "parse_vm_stat vm_stat =
     bind (run_command vm_stat)
       (\<lambda>vm_stat_output.
          Inr (foldl parse_vm_stat_line Map.empty (py_split_on (CHR 0x0A) vm_stat_output)))"

text \<open>
  \<open>parse_swap_used_mb\<close>.  \<open>used_value\<close> is the body of the \<open>if\<close> inside the loop, applied
  to \<open>tokens[i + 1]\<close>; \<open>swap_in_tokens\<close> is the loop over \<open>enumerate(tokens)\<close>.
\<close>

definition used_value :: "string \<Rightarrow> exn + int" where
  "used_value tok =
     (let val = py_strip tok
      in if py_endswith2 (CHR ''M'') (CHR ''m'') val
         then bind (py_float (butlast val)) py_int_of_float
         else if py_endswith2 (CHR ''G'') (CHR ''g'') val
         then bind (py_float (butlast val)) (\<lambda>x. py_int_of_float (py_float_mul_int x 1024))
         else bind (py_float val) py_int_of_float)"

fun swap_in_tokens :: "string list \<Rightarrow> exn + int" where
  "swap_in_tokens (tok # nxt # rest) =
     (if py_lower tok = ''used'' then used_value nxt else swap_in_tokens (nxt # rest))"
| "swap_in_tokens _ = Inr 0"

definition parse_swap_used_mb :: "string \<Rightarrow> exn + int" where
  "parse_swap_used_mb swap_output =
     swap_in_tokens (py_split (py_replace_char (CHR ''='') (CHR '' '') swap_output))"

text \<open>
  The snapshot dictionaries.  \<open>series_row\<close> holds the five columns that
  \<open>fetch_system_snapshots\<close> selects; a system snapshot adds the two others.
\<close>

record stamped =
  timestamp :: int

record series_row = stamped +
  mem_used_mb :: int
  mem_free_mb :: int
  mem_compressed_mb :: int
  swap_used_mb :: int

record system_snapshot = series_row +
  mem_total_mb :: int
  memory_pressure :: string

text \<open>\<open>pages.get(key, 0)\<close>.\<close>

definition pages_get :: "(string \<rightharpoonup> int) \<Rightarrow> string \<Rightarrow> int" where
  "pages_get pages key = (case pages key of Some v \<Rightarrow> v | None \<Rightarrow> 0)"

text \<open>
  The memory pressure heuristic of \<open>get_system_metrics\<close>.  The products
  \<open>0.05 * mem_total_mb\<close> and \<open>0.10 * mem_total_mb\<close> are taken in exact arithmetic.
\<close>

definition pressure_of :: "int \<Rightarrow> int \<Rightarrow> int \<Rightarrow> string" where
  "pressure_of free_mb total_mb swap_mb =
     (if (of_int free_mb :: rat) < (5 / 100) * of_int total_mb \<or> swap_mb > 256
      then ''high''
      else if (of_int free_mb :: rat) < (10 / 100) * of_int total_mb \<or> swap_mb > 0
      then ''medium''
      else ''low'')"

text \<open>
  \<open>get_system_metrics\<close> runs four commands and reads the clock once; their outcomes
  are the arguments, in the order of the calls: \<open>sysctl -n hw.memsize\<close>, \<open>vm_stat\<close>
  (for the page size), \<open>vm_stat\<close> (for the page counts), \<open>sysctl -n vm.swapusage\<close>,
  \<open>int(time.time())\<close>.
\<close>

definition get_system_metrics ::
  "exn + string \<Rightarrow> exn + string \<Rightarrow> exn + string \<Rightarrow> exn + string \<Rightarrow> int
     \<Rightarrow> exn + system_snapshot" where
  "get_system_metrics memsize vm_stat1 vm_stat2 swapusage now =
     bind (run_command memsize) (\<lambda>memsize_output.
     bind (py_int memsize_output) (\<lambda>mem_total_bytes.
     let total_mb = mem_total_bytes div (1024 * 1024) in
     bind (get_page_size vm_stat1) (\<lambda>page_size.
     bind (parse_vm_stat vm_stat2) (\<lambda>pages.
     let free_pages = pages_get pages ''Pages free'';
         active_pages = pages_get pages ''Pages active'';
         inactive_pages = pages_get pages ''Pages inactive'';
         wired_pages = pages_get pages ''Pages wired down'';
         compressed_pages = pages_get pages ''Pages occupied by compressor'';
         free_mb = (free_pages * page_size) div (1024 * 1024);
         inactive_mb = (inactive_pages * page_size) div (1024 * 1024);
         active_mb = (active_pages * page_size) div (1024 * 1024);
         wired_mb = (wired_pages * page_size) div (1024 * 1024);
         compressed_mb = (compressed_pages * page_size) div (1024 * 1024);
         used_mb = active_mb + wired_mb
     in
     bind (run_command swapusage) (\<lambda>swap_output.
     bind (parse_swap_used_mb swap_output) (\<lambda>swap_mb.
     let available_mb = free_mb + inactive_mb;
         pressure = pressure_of free_mb total_mb swap_mb
     in Inr \<lparr>timestamp = now,
              mem_used_mb = used_mb,
              mem_free_mb = free_mb,
              mem_compressed_mb = compressed_mb,
              swap_used_mb = swap_mb,
              mem_total_mb = total_mb,
              memory_pressure = pressure\<rparr>))))))"

text \<open>
  \<open>get_process_metrics\<close>.  \<open>psutil.process_iter\<close> yields, for every process, the \<open>info\<close>
  dictionary; an entry of it is \<open>None\<close> where psutil could not read the value, and
  \<open>shared\<close> exists on some platforms only.  An element \<open>None\<close> of the iteration stands for
  a process for which the loop body raised \<open>NoSuchProcess\<close>, \<open>AccessDenied\<close> or
  \<open>ZombieProcess\<close>: the \<open>except\<close> clause skips it.
\<close>

record mem_info =
  rss :: int
  vms :: int
  shared :: "int option"

record proc_info =
  info_pid :: int
  info_name :: "string option"
  info_memory_info :: "mem_info option"
  info_cpu_percent :: "rat option"

text \<open>
  The rows that \<open>fetch_top_processes\<close> returns.  The record is declared before
  \<open>process_snapshot\<close>, so that \<open>process_name\<close> and \<open>pid\<close> without a qualifier are the
  fields of a process snapshot.
\<close>

record top_process =
  process_name :: string
  pid :: int
  max_rss_mb :: int
  avg_rss_mb :: rat
  times_seen :: int
  foreground_ratio :: rat

record process_snapshot = stamped +
  pid :: int
  process_name :: string
  rss_mb :: int
  vms_mb :: int
  shared_mb :: int
  cpu_percent :: rat
  is_foreground :: int

text \<open>The body of the loop over the processes: \<open>None\<close> for \<open>continue\<close>.\<close>

definition process_entry :: "string option \<Rightarrow> int \<Rightarrow> proc_info option \<Rightarrow> process_snapshot option" where
  "process_entry frontmost_app now proc =
     (case proc of
        None \<Rightarrow> None
      | Some info \<Rightarrow>
          (case info_memory_info info of
             None \<Rightarrow> None
           | Some mi \<Rightarrow>
               Some \<lparr>timestamp = now,
                     pid = info_pid info,
                     process_name =
                       (case info_name info of
                          None \<Rightarrow> ''unknown''
                        | Some n \<Rightarrow> if n = [] then ''unknown'' else n),
                     rss_mb = rss mi div (1024 * 1024),
                     vms_mb = vms mi div (1024 * 1024),
                     shared_mb =
                       (case shared mi of None \<Rightarrow> 0 | Some sh \<Rightarrow> sh div (1024 * 1024)),
                     cpu_percent =
                       (case info_cpu_percent info of None \<Rightarrow> 0 | Some c \<Rightarrow> c),
                     is_foreground =
                       (case frontmost_app of
                          None \<Rightarrow> 0
                        | Some app \<Rightarrow> if app \<noteq> [] \<and> info_name info = Some app then 1 else 0)\<rparr>))"

text \<open>\<open>xs[:n]\<close> for any int \<open>n\<close>: a negative \<open>n\<close> drops from the end.\<close>

definition py_slice_to :: "int \<Rightarrow> 'a list \<Rightarrow> 'a list" where
  "py_slice_to n xs = (if 0 \<le> n then take (nat n) xs else take (nat (int (length xs) + n)) xs)"

text \<open>
  \<open>list.sort(key=..., reverse=True)\<close> is stable: equal keys keep their order.  The
  configured \<open>TOP_N_PROCESSES\<close> is the first argument.
\<close>

definition get_process_metrics ::
  "int \<Rightarrow> string option \<Rightarrow> int \<Rightarrow> proc_info option list \<Rightarrow> process_snapshot list" where
  "get_process_metrics top_n frontmost_app now procs =
     py_slice_to top_n
       (sort_key (\<lambda>p. - rss_mb p) (List.map_filter (process_entry frontmost_app now) procs))"

section \<open>metrics_store.py\<close>

text \<open>
  The database holds the rows of its two tables in the order of their \<open>id\<close>, which is
  the order of insertion; the column \<open>id\<close> itself is never read.  An SQLite \<open>INTEGER\<close> is
  an \<open>int\<close> and a \<open>REAL\<close> a \<open>rat\<close>.  The tables exist: \<open>CREATE ... IF NOT EXISTS\<close> leaves
  their rows as they are.

  What the storage engine does wrong is an argument of every operation: \<open>exec_fails k\<close>
  says that the statement number \<open>k\<close> of the call (from 0) raises an \<open>sqlite3.Error\<close>,
  \<open>commit_fails\<close> that the commit of an open transaction does.  Every operation opens its
  own connection; \<open>conn.close()\<close> in the \<open>finally\<close> clause abandons a transaction that was
  not committed.  The operations that write return the database and the exception
  raised, if any.
\<close>

record db =
  system_snapshot_tbl :: "system_snapshot list"
  process_snapshot_tbl :: "process_snapshot list"

record engine =
  exec_fails :: "nat \<Rightarrow> bool"
  commit_fails :: bool


text \<open>\<open>init_db\<close>: five statements, none of which opens a transaction.\<close>

definition init_db :: "engine \<Rightarrow> db \<Rightarrow> db \<times> exn option" where
  "init_db eng d = (if list_ex (exec_fails eng) [0 ..< 5] then (d, Some SqliteError) else (d, None))"

definition insert_system_snapshot :: "engine \<Rightarrow> db \<Rightarrow> system_snapshot \<Rightarrow> db \<times> exn option" where
  "insert_system_snapshot eng d snapshot =
     (if exec_fails eng 0 then (d, Some SqliteError)
      else if commit_fails eng then (d, Some SqliteError)
      else (d\<lparr>system_snapshot_tbl := system_snapshot_tbl d @ [snapshot]\<rparr>, None))"

text \<open>
  \<open>cursor.executemany\<close>: one \<open>INSERT\<close> for each snapshot, all in the transaction that the
  first of them opens; the result is the rows written so far, or the exception.
\<close>

fun executemany ::
  "engine \<Rightarrow> nat \<Rightarrow> process_snapshot list \<Rightarrow> process_snapshot list
     \<Rightarrow> exn + process_snapshot list" where
  "executemany eng k pending [] = Inr pending"
| "executemany eng k pending (snap # snaps) =
     (if exec_fails eng k then Inl SqliteError
      else executemany eng (Suc k) (pending @ [snap]) snaps)"

definition insert_process_snapshots ::
  "engine \<Rightarrow> db \<Rightarrow> process_snapshot list \<Rightarrow> db \<times> exn option" where
  "insert_process_snapshots eng d snapshots =
     (case executemany eng 0 [] snapshots of
        Inl e \<Rightarrow> (d, Some e)
      | Inr pending \<Rightarrow>
          if pending = [] then (d, None)
          else if commit_fails eng then (d, Some SqliteError)
          else (d\<lparr>process_snapshot_tbl := process_snapshot_tbl d @ pending\<rparr>, None))"

section \<open>db_readers.py\<close>




text \<open>\<open>MAX\<close> and \<open>AVG\<close> over the rows of a group, which is never empty.\<close>

definition sql_max :: "int list \<Rightarrow> int" where
  "sql_max xs = fold max (tl xs) (hd xs)"

definition sql_avg :: "int list \<Rightarrow> rat" where
  "sql_avg xs = of_int (sum_list xs) / of_nat (length xs)"

text \<open>\<open>LIMIT n\<close>: a negative \<open>n\<close> is no limit.\<close>

definition sql_limit :: "int \<Rightarrow> 'a list \<Rightarrow> 'a list" where
  "sql_limit n xs = (if n < 0 then xs else take (nat n) xs)"

definition group_key :: "process_snapshot \<Rightarrow> string \<times> int" where
  "group_key r = (process_name r, pid r)"

definition aggregate :: "process_snapshot list \<Rightarrow> string \<times> int \<Rightarrow> top_process" where
  "aggregate rows key =
     (let grp = filter (\<lambda>r. group_key r = key) rows
      in \<lparr>top_process.process_name = fst key,
          top_process.pid = snd key,
          max_rss_mb = sql_max (map rss_mb grp),
          avg_rss_mb = sql_avg (map rss_mb grp),
          times_seen = int (length grp),
          foreground_ratio = sql_avg (map is_foreground grp)\<rparr>)"

definition fetch_top_processes ::
  "engine \<Rightarrow> db \<Rightarrow> int \<Rightarrow> int \<Rightarrow> int \<Rightarrow> exn + top_process list" where
  "fetch_top_processes eng d now window_minutes limit =
     (if exec_fails eng 0 then Inl (RuntimeError ''Database error fetching top processes'')
      else
        (let rows = filter (\<lambda>r. timestamp r \<ge> now - window_minutes * 60)
                      (process_snapshot_tbl d);
             groups = map (aggregate rows) (sort (remdups (map group_key rows)))
         in Inr (sql_limit limit (sort_key (\<lambda>g. - max_rss_mb g) groups))))"

section \<open>The sampling loop\<close>

text \<open>
  What one cycle reads from its environment: the outcomes of the four commands, the
  clock at the two places where it is read, the result of \<open>get_frontmost_app_name\<close> (which
  catches its own exceptions), the processes, and the engine's behaviour in the two
  store operations.
\<close>

record cycle_env =
  memsize_outcome :: "exn + string"
  page_size_outcome :: "exn + string"
  vm_stat_outcome :: "exn + string"
  swapusage_outcome :: "exn + string"
  system_clock :: int
  frontmost :: "string option"
  process_clock :: int
  processes :: "proc_info option list"
  system_engine :: engine
  process_engine :: engine

text \<open>The lines that \<open>main\<close> prints.\<close>

datatype log_line =
    Starting
  | Collected int int string nat
  | Error_in_iteration exn

text \<open>
  The body of the \<open>try\<close> statement: the database after it, and the line it prints or the
  exception it raises.
\<close>

definition try_body :: "int \<Rightarrow> cycle_env \<Rightarrow> db \<Rightarrow> db \<times> (exn + log_line)" where
  "try_body top_n env d =
     (case get_system_metrics (memsize_outcome env) (page_size_outcome env)
             (vm_stat_outcome env) (swapusage_outcome env) (system_clock env) of
        Inl e \<Rightarrow> (d, Inl e)
      | Inr snap \<Rightarrow>
          (case insert_system_snapshot (system_engine env) d snap of
             (d1, Some e) \<Rightarrow> (d1, Inl e)
           | (d1, None) \<Rightarrow>
               (let process_snapshots =
                      get_process_metrics top_n (frontmost env) (process_clock env)
                        (processes env)
                in case (if process_snapshots \<noteq> []
                         then insert_process_snapshots (process_engine env) d1 process_snapshots
                         else (d1, None)) of
                     (d2, Some e) \<Rightarrow> (d2, Inl e)
                   | (d2, None) \<Rightarrow>
                       (d2, Inr (Collected (timestamp snap) (mem_used_mb snap)
                                   (memory_pressure snap) (length process_snapshots))))))"

text \<open>
  One turn of \<open>while True\<close>: \<open>except Exception\<close> catches what derives from \<open>Exception\<close> and
  prints a line; anything else leaves the loop.  \<open>time.sleep\<close> only passes time.
\<close>

definition iteration :: "int \<Rightarrow> cycle_env \<Rightarrow> db \<Rightarrow> db \<times> log_line list \<times> exn option" where
  "iteration top_n env d =
     (case try_body top_n env d of
        (d', Inr line) \<Rightarrow> (d', [line], None)
      | (d', Inl e) \<Rightarrow>
          if is_Exception e then (d', [Error_in_iteration e], None) else (d', [], Some e))"

text \<open>
  The loop over the environments of the cycles that are given.  The exception in the
  result is the one that ended the loop; \<open>None\<close> says that the loop is still running when
  the given cycles are over.
\<close>

fun main_loop ::
  "int \<Rightarrow> cycle_env list \<Rightarrow> db \<Rightarrow> log_line list \<Rightarrow> db \<times> log_line list \<times> exn option" where
  "main_loop top_n [] d out = (d, out, None)"
| "main_loop top_n (env # envs) d out =
     (case iteration top_n env d of
        (d', printed, None) \<Rightarrow> main_loop top_n envs d' (out @ printed)
      | (d', printed, Some e) \<Rightarrow> (d', out @ printed, Some e))"

definition main ::
  "engine \<Rightarrow> int \<Rightarrow> cycle_env list \<Rightarrow> db \<Rightarrow> db \<times> log_line list \<times> exn option" where
  "main init_engine top_n envs d =
     (case init_db init_engine d of
        (d0, Some e) \<Rightarrow> (d0, [], Some e)
      | (d0, None) \<Rightarrow> main_loop top_n envs d0 [Starting])"

section \<open>Example inputs\<close>

text \<open>Command outputs of one sampling cycle on a machine with 16 GiB of memory.\<close>

definition example_memsize :: string where
  "example_memsize = ''17179869184''"

definition example_vm_stat :: string where
  "example_vm_stat =
     ''Mach Virtual Memory Statistics: (page size of 16384 bytes)'' @ [CHR 0x0A] @
     ''Pages free: 3000.'' @ [CHR 0x0A] @
     ''Pages active: 100.'' @ [CHR 0x0A] @
     ''Pages inactive: 700.'' @ [CHR 0x0A] @
     ''Pages wired down: 100.'' @ [CHR 0x0A] @
     ''Pages occupied by compressor: 640.''"

definition example_swapusage :: string where
  "example_swapusage = ''total = 1024.00M  used = 256.00M  free = 768.00M  (encrypted)'' @ [CHR 0x0A]"


text \<open>
  \<open>str(n)\<close> for a natural number, and the first line that \<open>vm_stat\<close> prints on a machine
  whose pages have \<open>n\<close> bytes.
\<close>

fun decimal :: "nat \<Rightarrow> string" where
  "decimal n = (if n < 10 then [char_of (48 + n)] else decimal (n div 10) @ [char_of (48 + n mod 10)])"

definition vm_stat_header :: "nat \<Rightarrow> string" where
  "vm_stat_header n = ''Mach Virtual Memory Statistics: (page size of '' @ decimal n @ '' bytes)''"

declare decimal.simps [simp del]

text \<open>A header whose page size is not a number, and the header of the example output.\<close>

definition example_bad_vm_stat :: string where
  "example_bad_vm_stat = ''Mach Virtual Memory Statistics: (page size of abc bytes)''"

definition example_header :: string where
  "example_header = ''Mach Virtual Memory Statistics: (page size of 16384 bytes)''"












section \<open>Properties of the collector\<close>

subsection \<open>Unfolding \<open>get_system_metrics\<close>\<close>

lemma get_system_metrics_Inr:
  assumes "get_system_metrics memsize vm_stat1 vm_stat2 swapusage now = Inr s"
  obtains memsize_output mem_total_bytes page_size pages swap_output swap_mb where
    "run_command memsize = Inr memsize_output"
    "py_int memsize_output = Inr mem_total_bytes"
    "get_page_size vm_stat1 = Inr page_size"
    "parse_vm_stat vm_stat2 = Inr pages"
    "run_command swapusage = Inr swap_output"
    "parse_swap_used_mb swap_output = Inr swap_mb"
    "s = \<lparr>timestamp = now,
          mem_used_mb = (pages_get pages ''Pages active'' * page_size) div (1024 * 1024)
                        + (pages_get pages ''Pages wired down'' * page_size) div (1024 * 1024),
          mem_free_mb = (pages_get pages ''Pages free'' * page_size) div (1024 * 1024),
          mem_compressed_mb =
            (pages_get pages ''Pages occupied by compressor'' * page_size) div (1024 * 1024),
          swap_used_mb = swap_mb,
          mem_total_mb = mem_total_bytes div (1024 * 1024),
          memory_pressure =
            pressure_of ((pages_get pages ''Pages free'' * page_size) div (1024 * 1024))
              (mem_total_bytes div (1024 * 1024)) swap_mb\<rparr>"
  using assms
  by (auto simp: get_system_metrics_def bind_def Let_def split: sum.splits)

lemma get_system_metrics_eval:
  assumes "run_command memsize = Inr memsize_output"
    "py_int memsize_output = Inr mem_total_bytes"
    "get_page_size vm_stat1 = Inr page_size"
    "parse_vm_stat vm_stat2 = Inr pages"
    "run_command swapusage = Inr swap_output"
    "parse_swap_used_mb swap_output = Inr swap_mb"
  shows "get_system_metrics memsize vm_stat1 vm_stat2 swapusage now =
     Inr \<lparr>timestamp = now,
          mem_used_mb = (pages_get pages ''Pages active'' * page_size) div (1024 * 1024)
                        + (pages_get pages ''Pages wired down'' * page_size) div (1024 * 1024),
          mem_free_mb = (pages_get pages ''Pages free'' * page_size) div (1024 * 1024),
          mem_compressed_mb =
            (pages_get pages ''Pages occupied by compressor'' * page_size) div (1024 * 1024),
          swap_used_mb = swap_mb,
          mem_total_mb = mem_total_bytes div (1024 * 1024),
          memory_pressure =
            pressure_of ((pages_get pages ''Pages free'' * page_size) div (1024 * 1024))
              (mem_total_bytes div (1024 * 1024)) swap_mb\<rparr>"
  using assms by (simp add: get_system_metrics_def bind_def Let_def)

lemma example_memsize_output: "run_command (Inr example_memsize) = Inr ''17179869184''"
  by code_simp

lemma example_memsize_value: "py_int ''17179869184'' = Inr 17179869184"
  by code_simp

lemma example_page_size: "get_page_size (Inr example_vm_stat) = Inr 16384"
  by code_simp

lemma example_pages:
  "map_sum id (\<lambda>pages. map (pages_get pages)
       [''Pages free'', ''Pages active'', ''Pages inactive'', ''Pages wired down'',
        ''Pages occupied by compressor''])
     (parse_vm_stat (Inr example_vm_stat)) = Inr [3000, 100, 700, 100, 640]"
  by code_simp

lemma example_swap_output:
  "run_command (Inr example_swapusage) =
     Inr ''total = 1024.00M  used = 256.00M  free = 768.00M  (encrypted)''"
  by code_simp

lemma example_swap:
  "parse_swap_used_mb ''total = 1024.00M  used = 256.00M  free = 768.00M  (encrypted)'' = Inr 256"
  by code_simp

lemma example_pressure: "pressure_of 46 16384 256 = ''high''"
  by (simp add: pressure_of_def)

lemma example_metrics:
  "get_system_metrics (Inr example_memsize) (Inr example_vm_stat) (Inr example_vm_stat)
     (Inr example_swapusage) 1700000000 =
   Inr \<lparr>timestamp = 1700000000, mem_used_mb = 2, mem_free_mb = 46, mem_compressed_mb = 10,
        swap_used_mb = 256, mem_total_mb = 16384, memory_pressure = ''high''\<rparr>"
proof -
  obtain pages where pg: "parse_vm_stat (Inr example_vm_stat) = Inr pages"
    and vals: "map (pages_get pages)
       [''Pages free'', ''Pages active'', ''Pages inactive'', ''Pages wired down'',
        ''Pages occupied by compressor''] = [3000, 100, 700, 100, 640]"
    using example_pages by (cases "parse_vm_stat (Inr example_vm_stat)") auto
  show ?thesis
    using vals example_pressure
    by (simp add: get_system_metrics_eval [OF example_memsize_output example_memsize_value
          example_page_size pg example_swap_output example_swap])
qed


lemma rat_threshold_5: "((of_int f :: rat) < (5 / 100) * of_int t) = (20 * f < t)"
proof -
  have "((of_int f :: rat) < (5 / 100) * of_int t) = ((of_int (20 * f) :: rat) < of_int t)"
    by (simp add: field_simps)
  then show ?thesis by (simp only: of_int_less_iff)
qed

lemma rat_threshold_10: "((of_int f :: rat) < (10 / 100) * of_int t) = (10 * f < t)"
proof -
  have "((of_int f :: rat) < (10 / 100) * of_int t) = ((of_int (10 * f) :: rat) < of_int t)"
    by (simp add: field_simps)
  then show ?thesis by (simp only: of_int_less_iff)
qed



lemma pressure_of_int:
  "pressure_of free_mb total_mb swap_mb =
     (if 20 * free_mb < total_mb \<or> 256 < swap_mb then ''high''
      else if 10 * free_mb < total_mb \<or> 0 < swap_mb then ''medium''
      else ''low'')"
  unfolding pressure_of_def rat_threshold_5 rat_threshold_10 by simp




lemma div_add_bounds:
  fixes x y n :: int
  assumes "0 < n"
  shows "x div n + y div n \<le> (x + y) div n" and "(x + y) div n \<le> x div n + y div n + 1"
proof -
  have e: "(x + y) div n = x div n + y div n + (x mod n + y mod n) div n"
    by (rule div_add1_eq)
  have "0 \<le> x mod n + y mod n" using assms by (simp add: add_nonneg_nonneg)
  then have lo: "0 \<le> (x mod n + y mod n) div n" using assms by (simp add: pos_imp_zdiv_nonneg_iff)
  have "x mod n < n" "y mod n < n" using assms by simp_all
  then have "x mod n + y mod n < 2 * n" by linarith
  moreover have "n * ((x mod n + y mod n) div n) \<le> x mod n + y mod n"
    using assms mult_div_mod_eq [of n "x mod n + y mod n"]
      pos_mod_sign [of n "x mod n + y mod n"] by linarith
  moreover have "n * 2 \<le> n * ((x mod n + y mod n) div n)"
    if "2 \<le> (x mod n + y mod n) div n"
    using that assms by (intro mult_left_mono) simp_all
  ultimately have hi: "(x mod n + y mod n) div n \<le> 1" by fastforce
  show "x div n + y div n \<le> (x + y) div n" using e lo by linarith
  show "(x + y) div n \<le> x div n + y div n + 1" using e hi by linarith
qed

subsection \<open>Memory pressure\<close>



text \<open>The three sample classifications of the specification, for any \<open>total_mb > 0\<close>.\<close>

lemma pressure_samples:
  assumes "0 < total_mb"
  shows "25 * free_mb = total_mb \<Longrightarrow> pressure_of free_mb total_mb 0 = ''high''"
    and "25 * free_mb = 2 * total_mb \<Longrightarrow> pressure_of free_mb total_mb 0 = ''medium''"
    and "2 * free_mb = total_mb \<Longrightarrow> pressure_of free_mb total_mb 0 = ''low''"
  using assms by (auto simp: pressure_of_int)



subsection \<open>Used memory\<close>

text \<open>
  C2, as stated, fails: with 100 active and 100 wired pages of 16384 bytes the
  snapshot has \<open>mem_used_mb = 2\<close>, while the 200 pages together make 3 MB.
\<close>

theorem mem_used_single_conversion_counterexample:
  "get_page_size (Inr example_vm_stat) = Inr 16384
   \<and> map_sum id (\<lambda>pages. map (pages_get pages) [''Pages active'', ''Pages wired down''])
       (parse_vm_stat (Inr example_vm_stat)) = Inr [100, 100]
   \<and> map_sum id mem_used_mb
       (get_system_metrics (Inr example_memsize) (Inr example_vm_stat) (Inr example_vm_stat)
          (Inr example_swapusage) 1700000000) = Inr 2
   \<and> ((100 + 100) * 16384) div (1024 * 1024) = (3 :: int)"
proof -
  have "map_sum id (\<lambda>pages. map (pages_get pages) [''Pages active'', ''Pages wired down''])
       (parse_vm_stat (Inr example_vm_stat)) = Inr [100, 100]"
    using example_pages by (cases "parse_vm_stat (Inr example_vm_stat)") auto
  then show ?thesis by (simp add: example_page_size example_metrics)
qed

text \<open>
  C2, amended.  \<open>mem_used_mb\<close> is the sum of the active pages converted to MB and the
  wired pages converted to MB, each by floor division.  It is at most the conversion of
  the two counts together and falls short of it by at most 1.  Nothing relates it to
  \<open>mem_total_mb - mem_free_mb\<close>.
\<close>

theorem mem_used_is_sum_of_conversions:
  assumes "get_system_metrics memsize vm_stat1 vm_stat2 swapusage now = Inr s"
  shows "\<exists>page_size pages.
           get_page_size vm_stat1 = Inr page_size \<and> parse_vm_stat vm_stat2 = Inr pages
         \<and> mem_used_mb s =
             (pages_get pages ''Pages active'' * page_size) div (1024 * 1024)
             + (pages_get pages ''Pages wired down'' * page_size) div (1024 * 1024)
         \<and> mem_used_mb s \<le>
             ((pages_get pages ''Pages active'' + pages_get pages ''Pages wired down'')
                * page_size) div (1024 * 1024)
         \<and> ((pages_get pages ''Pages active'' + pages_get pages ''Pages wired down'')
                * page_size) div (1024 * 1024) \<le> mem_used_mb s + 1"
proof -
  from assms obtain page_size pages where ps: "get_page_size vm_stat1 = Inr page_size"
    and pg: "parse_vm_stat vm_stat2 = Inr pages"
    and u: "mem_used_mb s =
           (pages_get pages ''Pages active'' * page_size) div (1024 * 1024)
           + (pages_get pages ''Pages wired down'' * page_size) div (1024 * 1024)"
    by (rule get_system_metrics_Inr) simp
  have d: "(pages_get pages ''Pages active'' + pages_get pages ''Pages wired down'') * page_size
        = pages_get pages ''Pages active'' * page_size
          + pages_get pages ''Pages wired down'' * page_size"
    by (simp add: distrib_right)
  have "mem_used_mb s \<le>
             ((pages_get pages ''Pages active'' + pages_get pages ''Pages wired down'')
                * page_size) div (1024 * 1024)
         \<and> ((pages_get pages ''Pages active'' + pages_get pages ''Pages wired down'')
                * page_size) div (1024 * 1024) \<le> mem_used_mb s + 1"
    unfolding u d
    using div_add_bounds [of "1024 * 1024" "pages_get pages ''Pages active'' * page_size"
        "pages_get pages ''Pages wired down'' * page_size"]
    by simp
  with ps pg u show ?thesis by blast
qed

theorem mem_used_is_sum_of_conversions_witness:
  "get_system_metrics (Inr example_memsize) (Inr example_vm_stat) (Inr example_vm_stat)
     (Inr example_swapusage) 1700000000 =
   Inr \<lparr>timestamp = 1700000000, mem_used_mb = 2, mem_free_mb = 46, mem_compressed_mb = 10,
        swap_used_mb = 256, mem_total_mb = 16384, memory_pressure = ''high''\<rparr>
   \<and> (\<exists>page_size pages.
         get_page_size (Inr example_vm_stat) = Inr page_size
       \<and> parse_vm_stat (Inr example_vm_stat) = Inr pages
       \<and> 2 = (pages_get pages ''Pages active'' * page_size) div (1024 * 1024)
             + (pages_get pages ''Pages wired down'' * page_size) div (1024 * 1024)
       \<and> 2 \<le> ((pages_get pages ''Pages active'' + pages_get pages ''Pages wired down'')
                * page_size) div (1024 * 1024)
       \<and> ((pages_get pages ''Pages active'' + pages_get pages ''Pages wired down'')
                * page_size) div (1024 * 1024) \<le> 2 + 1)"
  using mem_used_is_sum_of_conversions [OF example_metrics] example_metrics by simp

subsection \<open>Page size\<close>

lemma page_size_in_parts_first_of:
  "''of'' \<notin> set pre \<Longrightarrow>
   page_size_in_parts (pre @ ''of'' # tok # post) = Some (py_int tok)"
proof (induction pre)
  case Nil
  show ?case by simp
next
  case (Cons p ps)
  then have ih: "page_size_in_parts (ps @ ''of'' # tok # post) = Some (py_int tok)"
    and p: "p \<noteq> ''of''" by auto
  obtain q qs where q: "ps @ ''of'' # tok # post = q # qs" by (cases ps) auto
  have "page_size_in_parts (p # q # qs) = page_size_in_parts (q # qs)"
    using p by simp
  with ih q show ?case by simp
qed

lemma page_size_in_lines_absent:
  "\<forall>l \<in> set ls. \<not> py_in ''page size of'' l \<Longrightarrow> page_size_in_lines ls = Inr 4096"
  by (induction ls) simp_all

lemma page_size_in_lines_first:
  assumes "\<forall>l \<in> set before. \<not> py_in ''page size of'' l"
    and "py_in ''page size of'' line"
    and "page_size_in_parts (py_split line) = Some r"
  shows "page_size_in_lines (before @ line # after) = r"
  using assms by (induction before) simp_all

lemma get_page_size_text:
  "get_page_size (Inr text) = page_size_in_lines (py_split_on (CHR 0x0A) (py_strip text))"
  by (simp add: get_page_size_def run_command_def bind_def)

lemma get_page_size_probe_failure: "get_page_size (Inl e) = Inl e"
  by (simp add: get_page_size_def run_command_def bind_def)

lemma is_digit_char_of: "(d :: nat) < 10 \<Longrightarrow> is_digit (char_of (48 + d))"
  by (simp add: is_digit_def)

lemma digit_val_char_of: "(d :: nat) < 10 \<Longrightarrow> digit_val (char_of (48 + d)) = int d"
proof -
  assume "d < 10"
  then have "(48 + d) mod 256 = 48 + d" by (intro mod_less) linarith
  then have "(of_char (char_of (48 + d)) :: nat) = 48 + d" by (simp only: of_char_of)
  moreover have "(of_char (char_of (48 + d)) :: int) = int (of_char (char_of (48 + d)))"
    by (rule of_nat_of_char [symmetric])
  ultimately have "(of_char (char_of (48 + d)) :: int) = int (48 + d)"
    by (simp only:)
  then show ?thesis by (simp add: digit_val_def)
qed

lemma decimal_digits: "\<forall>c \<in> set (decimal n). is_digit c"
proof (induction n rule: decimal.induct)
  case (1 n)
  show ?case
  proof (cases "n < 10")
    case True
    then show ?thesis by (subst decimal.simps) (simp add: is_digit_char_of)
  next
    case False
    with 1 show ?thesis by (subst decimal.simps) (simp add: is_digit_char_of)
  qed
qed

lemma decimal_nonempty: "decimal n \<noteq> []"
  by (subst decimal.simps) simp

lemma int_of_digits_snoc: "int_of_digits (ds @ [d]) = 10 * int_of_digits ds + digit_val d"
  by (simp add: int_of_digits_def)

lemma int_of_digits_decimal: "int_of_digits (decimal n) = int n"
proof (induction n rule: decimal.induct)
  case (1 n)
  show ?case
  proof (cases "n < 10")
    case True
    then show ?thesis
      by (subst decimal.simps) (simp add: int_of_digits_def digit_val_char_of)
  next
    case False
    with 1 have "int_of_digits (decimal (n div 10)) = int (n div 10)" by simp
    moreover have "10 * int (n div 10) + int (n mod 10) = int n" by presburger
    ultimately show ?thesis
      using False by (subst decimal.simps) (simp add: int_of_digits_snoc digit_val_char_of)
  qed
qed

lemma more_digits_all: "\<forall>c \<in> set ds. is_digit c \<Longrightarrow> more_digits ds = (ds, [])"
  by (induction ds rule: more_digits.induct) auto

lemma digitpart_all:
  "ds \<noteq> [] \<Longrightarrow> \<forall>c \<in> set ds. is_digit c \<Longrightarrow> digitpart ds = Some (ds, [])"
  by (cases ds) (simp_all add: digitpart_def more_digits_all)

lemma digit_not_space: "is_digit c \<Longrightarrow> \<not> py_isspace c"
  by (auto simp: is_digit_def py_isspace_def)

lemma digit_not_sign: "is_digit c \<Longrightarrow> c \<noteq> CHR ''-'' \<and> c \<noteq> CHR ''+''"
  by (auto simp: is_digit_def)

lemma digit_not_newline: "is_digit c \<Longrightarrow> c \<noteq> CHR 0x0A"
  by (auto simp: is_digit_def)

lemma py_strip_id:
  "s \<noteq> [] \<Longrightarrow> \<not> py_isspace (hd s) \<Longrightarrow> \<not> py_isspace (last s) \<Longrightarrow> py_strip s = s"
proof -
  assume a: "s \<noteq> []" "\<not> py_isspace (hd s)" "\<not> py_isspace (last s)"
  then have l: "py_lstrip s = s" by (cases s) (simp_all add: py_lstrip_def)
  from a have "dropWhile py_isspace (rev s) = rev s"
    by (cases "rev s") (simp_all add: last_rev [symmetric] hd_rev)
  then have "py_rstrip s = s" by (simp add: py_rstrip_def)
  with l show ?thesis by (simp add: py_strip_def)
qed

lemma py_int_decimal: "py_int (decimal n) = Inr (int n)"
proof -
  have d: "\<forall>c \<in> set (decimal n). is_digit c" and ne: "decimal n \<noteq> []"
    by (rule decimal_digits, rule decimal_nonempty)
  then have h: "is_digit (hd (decimal n))" and l: "is_digit (last (decimal n))" by simp_all
  have st: "py_strip (decimal n) = decimal n"
    using ne h l by (intro py_strip_id) (simp_all add: digit_not_space)
  have sg: "opt_sign (decimal n) = (1, decimal n)"
    using ne h digit_not_sign by (cases "decimal n") (auto simp: opt_sign_def)
  show ?thesis
    by (simp add: py_int_def st sg digitpart_all [OF ne d] int_of_digits_decimal)
qed


lemma split_words_nonspace:
  "\<forall>c \<in> set w. \<not> py_isspace c \<Longrightarrow> split_words cur (w @ rest) = split_words (cur @ w) rest"
  by (induction w arbitrary: cur) simp_all

lemma split_sep_none: "sep \<notin> set s \<Longrightarrow> split_sep sep cur s = [cur @ s]"
  by (induction s arbitrary: cur) auto

lemma py_in_middle: "py_in sub (a @ sub @ b)"
proof (induction a)
  case Nil
  show ?case
  proof (cases "sub @ b")
    case Nil
    then show ?thesis by simp
  next
    case (Cons c cs)
    have "take (length sub) (sub @ b) = sub" by simp
    then have "take (length sub) (c # cs) = sub" by (simp only: Cons)
    then show ?thesis by (simp add: Cons)
  qed
next
  case (Cons c a)
  then show ?case by simp
qed

lemma decimal_nonspace: "\<forall>c \<in> set (decimal n). \<not> py_isspace c"
  using decimal_digits digit_not_space by blast

lemma vm_stat_header_tokens:
  "py_split (vm_stat_header n) =
     [''Mach'', ''Virtual'', ''Memory'', ''Statistics:'', ''(page'', ''size''] @
     ''of'' # decimal n # [''bytes)'']"
proof -
  have "py_split (vm_stat_header n) =
     [''Mach'', ''Virtual'', ''Memory'', ''Statistics:'', ''(page'', ''size'', ''of'']
       @ split_words [] (decimal n @ '' bytes)'')"
    by (simp add: py_split_def vm_stat_header_def py_isspace_def)
  also have "split_words [] (decimal n @ '' bytes)'') = split_words (decimal n) '' bytes)''"
    using split_words_nonspace [where w = "decimal n" and cur = "[]" and rest = "'' bytes)''"]
      decimal_nonspace [of n] by simp
  also have "\<dots> = [decimal n, ''bytes)'']"
    using decimal_nonempty [of n] by (simp add: py_isspace_def)
  finally show ?thesis by simp
qed

lemma vm_stat_header_phrase: "py_in ''page size of'' (vm_stat_header n)"
proof -
  have "vm_stat_header n =
      ''Mach Virtual Memory Statistics: ('' @ ''page size of'' @ ('' '' @ decimal n @ '' bytes)'')"
    by (simp add: vm_stat_header_def)
  then show ?thesis by (simp only: py_in_middle)
qed

lemma vm_stat_header_lines:
  "py_split_on (CHR 0x0A) (py_strip (vm_stat_header n)) = [vm_stat_header n]"
proof -
  have "py_strip (vm_stat_header n) = vm_stat_header n"
    by (rule py_strip_id) (simp_all add: vm_stat_header_def py_isspace_def)
  moreover have "CHR 0x0A \<notin> set (vm_stat_header n)"
    using decimal_digits [of n] digit_not_newline by (auto simp: vm_stat_header_def)
  ultimately show ?thesis by (simp add: py_split_on_def split_sep_none)
qed

lemma get_page_size_header: "get_page_size (Inr (vm_stat_header n)) = Inr (int n)"
proof -
  have "page_size_in_parts (py_split (vm_stat_header n)) = Some (py_int (decimal n))"
    unfolding vm_stat_header_tokens by (rule page_size_in_parts_first_of) simp
  then show ?thesis
    by (simp add: get_page_size_text vm_stat_header_lines vm_stat_header_phrase py_int_decimal)
qed

text \<open>
  C4, as stated, fails: a header whose page size is not an integer literal makes
  \<open>get_page_size\<close> raise \<open>ValueError\<close>; it does not return the default.
\<close>

theorem page_size_unparsable_counterexample:
  "get_page_size (Inr example_bad_vm_stat) = Inl ValueError"
  by code_simp

text \<open>
  C4, amended.  \<open>get_page_size\<close> returns 4096 when no line of the output contains
  \<open>page size of\<close>.  When the first line that contains it has, before any other token
  \<open>of\<close>, a token \<open>of\<close> followed by a token \<open>tok\<close>, the result is \<open>int(tok)\<close>: the
  number \<open>N\<close> when \<open>tok\<close> is an integer literal, \<open>ValueError\<close> otherwise.  For the header
  that \<open>vm_stat\<close> prints the result is the page size \<open>n\<close>, for every \<open>n\<close>.
\<close>

theorem page_size_parsing:
  "((\<forall>l \<in> set (py_split_on (CHR 0x0A) (py_strip stdout)). \<not> py_in ''page size of'' l)
      \<longrightarrow> get_page_size (Inr stdout) = Inr 4096)
   \<and> (py_split_on (CHR 0x0A) (py_strip stdout) = before @ line # after
        \<and> (\<forall>l \<in> set before. \<not> py_in ''page size of'' l)
        \<and> py_in ''page size of'' line
        \<and> py_split line = pre @ ''of'' # tok # post
        \<and> ''of'' \<notin> set pre
      \<longrightarrow> get_page_size (Inr stdout) = py_int tok)
   \<and> get_page_size (Inr (vm_stat_header n)) = Inr (int n)"
proof (intro conjI impI)
  assume "\<forall>l \<in> set (py_split_on (CHR 0x0A) (py_strip stdout)). \<not> py_in ''page size of'' l"
  then show "get_page_size (Inr stdout) = Inr 4096"
    by (simp add: get_page_size_text page_size_in_lines_absent)
next
  assume a: "py_split_on (CHR 0x0A) (py_strip stdout) = before @ line # after
        \<and> (\<forall>l \<in> set before. \<not> py_in ''page size of'' l)
        \<and> py_in ''page size of'' line
        \<and> py_split line = pre @ ''of'' # tok # post
        \<and> ''of'' \<notin> set pre"
  then have "page_size_in_parts (py_split line) = Some (py_int tok)"
    by (simp add: page_size_in_parts_first_of)
  with a show "get_page_size (Inr stdout) = py_int tok"
    by (simp add: get_page_size_text page_size_in_lines_first)
next
  show "get_page_size (Inr (vm_stat_header n)) = Inr (int n)"
    by (rule get_page_size_header)
qed

theorem page_size_parsing_witness:
  "py_split_on (CHR 0x0A) (py_strip ''Pages free: 3000.'') = [''Pages free: 3000.'']
   \<and> \<not> py_in ''page size of'' ''Pages free: 3000.''
   \<and> get_page_size (Inr ''Pages free: 3000.'') = Inr 4096
   \<and> py_split_on (CHR 0x0A) (py_strip example_vm_stat)
       = [] @ example_header
           # [''Pages free: 3000.'', ''Pages active: 100.'', ''Pages inactive: 700.'',
              ''Pages wired down: 100.'', ''Pages occupied by compressor: 640.'']
   \<and> py_in ''page size of'' example_header
   \<and> py_split example_header
       = [''Mach'', ''Virtual'', ''Memory'', ''Statistics:'', ''(page'', ''size'']
         @ ''of'' # ''16384'' # [''bytes)'']
   \<and> ''of'' \<notin> set [''Mach'', ''Virtual'', ''Memory'', ''Statistics:'', ''(page'', ''size'']
   \<and> py_int ''16384'' = Inr 16384
   \<and> get_page_size (Inr example_vm_stat) = Inr 16384"
proof -
  have a1: "py_split_on (CHR 0x0A) (py_strip ''Pages free: 3000.'') = [''Pages free: 3000.'']"
    by code_simp
  have a2: "\<not> py_in ''page size of'' ''Pages free: 3000.''"
    by code_simp
  have a: "\<forall>l \<in> set (py_split_on (CHR 0x0A) (py_strip ''Pages free: 3000.'')).
       \<not> py_in ''page size of'' l"
    using a2 by (simp only: a1) simp
  have b1: "py_split_on (CHR 0x0A) (py_strip example_vm_stat)
       = [] @ example_header
           # [''Pages free: 3000.'', ''Pages active: 100.'', ''Pages inactive: 700.'',
              ''Pages wired down: 100.'', ''Pages occupied by compressor: 640.'']"
    by code_simp
  have b2: "py_in ''page size of'' example_header"
    by code_simp
  have b3: "py_split example_header
       = [''Mach'', ''Virtual'', ''Memory'', ''Statistics:'', ''(page'', ''size'']
         @ ''of'' # ''16384'' # [''bytes)'']"
    by code_simp
  have b4: "''of'' \<notin> set [''Mach'', ''Virtual'', ''Memory'', ''Statistics:'', ''(page'', ''size'']"
    by simp
  have b5: "py_int ''16384'' = Inr 16384"
    by code_simp
  from a have "get_page_size (Inr ''Pages free: 3000.'') = Inr 4096"
    using page_size_parsing [where stdout = "''Pages free: 3000.''"] by blast
  moreover from b1 b2 b3 b4 have "get_page_size (Inr example_vm_stat) = py_int ''16384''"
    using page_size_parsing [where stdout = example_vm_stat and before = "[]"
        and line = example_header
        and after = "[''Pages free: 3000.'', ''Pages active: 100.'', ''Pages inactive: 700.'',
              ''Pages wired down: 100.'', ''Pages occupied by compressor: 640.'']"
        and pre = "[''Mach'', ''Virtual'', ''Memory'', ''Statistics:'', ''(page'', ''size'']"
        and tok = "''16384''" and post = "[''bytes)'']"]
    by simp
  ultimately show ?thesis using a1 a2 b1 b2 b3 b4 b5 by simp
qed

subsection \<open>Swap usage\<close>












section \<open>Properties of the store and of the readers\<close>

subsection \<open>Latest snapshot\<close>







subsection \<open>Process snapshots\<close>





subsection \<open>Windowed fetch\<close>





end
